theory Spec2Isabelle
  imports Main "HOL-Library.List_Lexorder" "HOL-Library.Sublist" "HOL-Library.Multiset"
begin

section \<open>The image classification tool (image\_classifier.py)\<close>

text \<open>
  The program is one class, \<open>ImageClassifier\<close>, whose methods read and change four
  attributes (\<open>image_files\<close>, \<open>current_index\<close>, \<open>folders\<close>, \<open>undo_stack\<close>) and the
  files below \<open>work_dir\<close>. The embedding passes the file system and the object explicitly:
  every method takes both and returns both, with the way the method ended. The widgets
  (labels, list box, message boxes) hold no data the methods read back, so what they would
  show is returned as a value instead of being stored.
\<close>

subsection \<open>Python lists and strings\<close>

text \<open>Exceptions of the Python run time that the methods can meet.\<close>

datatype exn = IndexError | OSError

text \<open>
  \<open>xs[i]\<close> and \<open>del xs[i]\<close>: an index from \<open>-len(xs)\<close> to \<open>len(xs) - 1\<close> is accepted,
  a negative one counts from the end, any other raises \<open>IndexError\<close>.
\<close>

definition py_position :: "nat \<Rightarrow> int \<Rightarrow> nat option" where
  "py_position n i =
     (if 0 \<le> i \<and> i < int n then Some (nat i)
      else if - int n \<le> i \<and> i < 0 then Some (nat (int n + i))
      else None)"

definition py_getitem :: "'a list \<Rightarrow> int \<Rightarrow> exn + 'a" where
  "py_getitem xs i =
     (case py_position (length xs) i of
        None \<Rightarrow> Inl IndexError
      | Some j \<Rightarrow> Inr (xs ! j))"

definition py_delitem :: "'a list \<Rightarrow> int \<Rightarrow> exn + 'a list" where
  "py_delitem xs i =
     (case py_position (length xs) i of
        None \<Rightarrow> Inl IndexError
      | Some j \<Rightarrow> Inr (take j xs @ drop (Suc j) xs))"

text \<open>\<open>xs.index(x)\<close> for an \<open>x\<close> that occurs in \<open>xs\<close>: the first position holding it.\<close>

definition py_list_index :: "'a list \<Rightarrow> 'a \<Rightarrow> int" where
  "py_list_index xs x = int (length (takeWhile (\<lambda>y. y \<noteq> x) xs))"

text \<open>
  A Python \<open>str\<close> is a sequence of code points, and two of them compare
  lexicographically by code point; that is the order of lists of numbers, which
  \<open>list.sort\<close> uses below. The names \<open>os.listdir\<close> returns are such strings (a byte of a
  name that does not decode arrives as a lone surrogate code point). \<open>str\<close> turns a
  literal of this text into its code points.
\<close>

type_synonym py_str = "nat list"

definition str :: "string \<Rightarrow> py_str" where
  "str cs = map of_char cs"

text \<open>
  \<open>str.lower\<close> is modelled on the letters \<open>A\<close> to \<open>Z\<close> (code points 65 to 90):
  lower-casing any other character never completes one of the five extensions, which
  are all the program compares lower-cased names with.
\<close>

definition lower_char :: "nat \<Rightarrow> nat" where
  "lower_char c = (if 65 \<le> c \<and> c \<le> 90 then c + 32 else c)"

definition lower :: "py_str \<Rightarrow> py_str" where
  "lower s = map lower_char s"

definition endswith :: "py_str \<Rightarrow> py_str \<Rightarrow> bool" where
  "endswith s suf = (length suf \<le> length s \<and> drop (length s - length suf) s = suf)"

definition startswith :: "py_str \<Rightarrow> py_str \<Rightarrow> bool" where
  "startswith s pre = (take (length pre) s = pre)"

subsection \<open>The file system\<close>

text \<open>
  A path is the list of its components below the root. Every name the program puts in a
  path comes from \<open>os.listdir\<close>, so it is one non-empty component without a separator;
  on such names \<open>os.path.join\<close> appends components and \<open>os.path.basename\<close> returns the
  last one.
\<close>

type_synonym path = "py_str list"

definition os_path_join :: "path \<Rightarrow> py_str list \<Rightarrow> path" where
  "os_path_join p names = p @ names"

definition os_path_basename :: "path \<Rightarrow> py_str" where
  "os_path_basename p = (if p = [] then [] else last p)"

text \<open>
  \<open>os.stat\<close> of a directory: \<open>st_birthtime\<close> is \<open>None\<close> where reading the attribute raises
  \<open>AttributeError\<close> (a platform without creation times). Times are only compared, so
  they are integers here.
\<close>

record stat_result =
  st_birthtime :: "int option"
  st_ctime :: int

datatype node = File nat | Dir stat_result

text \<open>
  The file system is the list of its entries, each path with what is there; a regular
  file carries a number standing for its content. \<open>os.listdir\<close> returns the names in
  the order of that list, which stands for the arbitrary order of the operating system.
  The program lists its working directory only and has no handler for a listing that
  fails, so \<open>os_listdir\<close> has no error case; \<open>os_stat\<close> is called on directories
  only, and its value elsewhere is a filler.
\<close>

type_synonym filesystem = "(path \<times> node) list"

definition os_lookup :: "filesystem \<Rightarrow> path \<Rightarrow> node option" where
  "os_lookup fs p = map_of fs p"

definition os_path_exists :: "filesystem \<Rightarrow> path \<Rightarrow> bool" where
  "os_path_exists fs p = (p = [] \<or> os_lookup fs p \<noteq> None)"

definition os_path_isdir :: "filesystem \<Rightarrow> path \<Rightarrow> bool" where
  "os_path_isdir fs p =
     (p = [] \<or> (case os_lookup fs p of Some (Dir st) \<Rightarrow> True | _ \<Rightarrow> False))"

definition os_listdir :: "filesystem \<Rightarrow> path \<Rightarrow> py_str list" where
  "os_listdir fs d = map (\<lambda>e. last (fst e)) (filter (\<lambda>e. fst e \<noteq> [] \<and> butlast (fst e) = d) fs)"

definition os_stat :: "filesystem \<Rightarrow> path \<Rightarrow> stat_result" where
  "os_stat fs p =
     (case os_lookup fs p of
        Some (Dir st) \<Rightarrow> st
      | _ \<Rightarrow> \<lparr>st_birthtime = None, st_ctime = 0\<rparr>)"

text \<open>
  \<open>shutil.move\<close> is the library's, and what it does depends on the platform and on much
  that the program never looks at. The methods therefore take it as an argument: given
  the file system, the source and the destination, it returns the file system it
  leaves and the exception it raised, if any. A call that raises may have changed the
  file system before. The theorems about the methods hold for every such function.
\<close>

type_synonym mover = "filesystem \<Rightarrow> path \<Rightarrow> path \<Rightarrow> filesystem \<times> exn option"

subsection \<open>The object and how a method ends\<close>

record session =
  work_dir :: path
  image_files :: "py_str list"
  current_index :: int
  folders :: "py_str list"
  undo_stack :: "(path \<times> path) list"

text \<open>What the image label shows after a method has refreshed it.\<close>

datatype display = NoImagesFound | AllClassified | Showing py_str

text \<open>
  The program reports nothing to its caller: it returns early, opens a dialog, or lets an
  exception escape. The specification names these endings as errors, and so does the model:
  \<^item> \<open>NoImagesError\<close>: the silent return of \<open>move_image_to_folder\<close> on an empty list;
  \<^item> \<open>InvalidFolderError\<close>: its silent return on \<open>folder_index >= len(self.folders)\<close>;
  \<^item> \<open>NothingToUndoError\<close>: the return of \<open>undo_move\<close> on an empty stack;
  \<^item> \<open>FileSystemError e\<close>: the \<open>except Exception as e\<close> branch of either method;
  \<^item> \<open>Uncaught e\<close>: an exception raised outside every \<open>try\<close>.
\<close>

datatype error =
    NoImagesError
  | InvalidFolderError
  | NothingToUndoError
  | FileSystemError exn
  | Uncaught exn

datatype event =
    Cancelled
  | Skipped display
  | Moved display
  | Undone display
  | Turned display
  | Stayed

subsection \<open>Loading\<close>

definition image_suffixes :: "py_str list" where
  "image_suffixes = map str [''.png'', ''.jpg'', ''.jpeg'', ''.gif'', ''.bmp'']"

definition is_image_name :: "py_str \<Rightarrow> bool" where
  "is_image_name f = list_ex (endswith (lower f)) image_suffixes"

definition load_images :: "filesystem \<Rightarrow> session \<Rightarrow> session" where
  "load_images fs s =
     s\<lparr>image_files := sort (filter is_image_name (os_listdir fs (work_dir s))),
       current_index := 0\<rparr>"

definition create_time :: "filesystem \<Rightarrow> path \<Rightarrow> int" where
  "create_time fs full_path =
     (case st_birthtime (os_stat fs full_path) of
        Some t \<Rightarrow> t
      | None \<Rightarrow> st_ctime (os_stat fs full_path))"

definition folder_with_time :: "filesystem \<Rightarrow> path \<Rightarrow> (py_str \<times> int) list" where
  "folder_with_time fs wd =
     map (\<lambda>f. (f, create_time fs (os_path_join wd [f])))
       (filter (\<lambda>f. os_path_isdir fs (os_path_join wd [f]) \<and> \<not> startswith f (str ''.''))
          (os_listdir fs wd))"

definition load_folders :: "filesystem \<Rightarrow> session \<Rightarrow> session" where
  "load_folders fs s =
     s\<lparr>folders := map fst (sort_key snd (folder_with_time fs (work_dir s)))\<rparr>"

subsection \<open>Showing and turning pages\<close>

definition show_current_image :: "session \<Rightarrow> exn + display" where
  "show_current_image s =
     (if image_files s = [] then Inr NoImagesFound
      else case py_getitem (image_files s) (current_index s) of
             Inl e \<Rightarrow> Inl e
           | Inr current_file \<Rightarrow> Inr (Showing current_file))"

definition prev_image :: "session \<Rightarrow> session \<times> (error + event)" where
  "prev_image s =
     (if image_files s \<noteq> [] \<and> current_index s > 0 then
        (let s' = s\<lparr>current_index := current_index s - 1\<rparr> in
         case show_current_image s' of
           Inl e \<Rightarrow> (s', Inl (Uncaught e))
         | Inr d \<Rightarrow> (s', Inr (Turned d)))
      else (s, Inr Stayed))"

definition next_image :: "session \<Rightarrow> session \<times> (error + event)" where
  "next_image s =
     (if image_files s \<noteq> [] \<and> current_index s < int (length (image_files s)) - 1 then
        (let s' = s\<lparr>current_index := current_index s + 1\<rparr> in
         case show_current_image s' of
           Inl e \<Rightarrow> (s', Inl (Uncaught e))
         | Inr d \<Rightarrow> (s', Inr (Turned d)))
      else (s, Inr Stayed))"

subsection \<open>Moving and undoing\<close>

definition go_to_next_or_finish :: "session \<Rightarrow> exn + display" where
  "go_to_next_or_finish s =
     (if image_files s = [] then Inr AllClassified else show_current_image s)"

text \<open>
  \<open>askyesnocancel\<close> is the answer the user gives to the dialog, should it open:
  \<open>Some True\<close> overwrites, \<open>Some False\<close> skips, \<open>None\<close> cancels. The dialog opens only
  when the destination exists. An exception of \<open>shutil.move\<close> is caught by the
  \<open>except\<close> branch, which shows it and changes nothing of the object.
\<close>

definition move_image_to_folder ::
  "mover \<Rightarrow> filesystem \<Rightarrow> session \<Rightarrow> int \<Rightarrow> bool option \<Rightarrow>
     filesystem \<times> session \<times> (error + event)" where
  "move_image_to_folder shutil_move fs s folder_index askyesnocancel =
     (if image_files s = [] then (fs, s, Inl NoImagesError)
      else if folder_index \<ge> int (length (folders s)) then (fs, s, Inl InvalidFolderError)
      else case py_getitem (image_files s) (current_index s) of
        Inl e \<Rightarrow> (fs, s, Inl (Uncaught e))
      | Inr src_file \<Rightarrow>
        (let src_path = os_path_join (work_dir s) [src_file] in
         case py_getitem (folders s) folder_index of
           Inl e \<Rightarrow> (fs, s, Inl (Uncaught e))
         | Inr target_folder \<Rightarrow>
           (let dst_path = os_path_join (work_dir s) [target_folder, src_file] in
            if os_path_exists fs dst_path \<and> askyesnocancel = None then (fs, s, Inr Cancelled)
            else if os_path_exists fs dst_path \<and> askyesnocancel = Some False then
              (case go_to_next_or_finish s of
                 Inl e \<Rightarrow> (fs, s, Inl (Uncaught e))
               | Inr d \<Rightarrow> (fs, s, Inr (Skipped d)))
            else case shutil_move fs src_path dst_path of
              (fs', Some e) \<Rightarrow> (fs', s, Inl (FileSystemError e))
            | (fs', None) \<Rightarrow>
              (let s1 = s\<lparr>undo_stack := undo_stack s @ [(dst_path, src_path)]\<rparr> in
               case py_delitem (image_files s1) (current_index s1) of
                 Inl e \<Rightarrow> (fs', s1, Inl (FileSystemError e))
               | Inr rest \<Rightarrow>
                 (let s2 = s1\<lparr>image_files := rest\<rparr>;
                      s3 = (if current_index s2 \<ge> int (length (image_files s2))
                            then s2\<lparr>current_index := int (length (image_files s2)) - 1\<rparr>
                            else s2)
                  in case go_to_next_or_finish s3 of
                       Inl e \<Rightarrow> (fs', s3, Inl (FileSystemError e))
                     | Inr d \<Rightarrow> (fs', s3, Inr (Moved d)))))))"

definition undo_move ::
  "mover \<Rightarrow> filesystem \<Rightarrow> session \<Rightarrow> filesystem \<times> session \<times> (error + event)" where
  "undo_move shutil_move fs s =
     (if undo_stack s = [] then (fs, s, Inl NothingToUndoError)
      else
        (let current_path = fst (last (undo_stack s));
             original_path = snd (last (undo_stack s));
             s1 = s\<lparr>undo_stack := butlast (undo_stack s)\<rparr>
         in case shutil_move fs current_path original_path of
              (fs', Some e) \<Rightarrow> (fs', s1, Inl (FileSystemError e))
            | (fs', None) \<Rightarrow>
              (let old_index = current_index s1;
                   s2 = load_images fs' s1;
                   restored_file = os_path_basename original_path;
                   s3 = (if restored_file \<in> set (image_files s2)
                         then s2\<lparr>current_index := py_list_index (image_files s2) restored_file\<rparr>
                         else s2\<lparr>current_index :=
                                   min old_index (int (length (image_files s2)) - 1)\<rparr>)
               in case show_current_image s3 of
                    Inl e \<Rightarrow> (fs', s3, Inl (FileSystemError e))
                  | Inr d \<Rightarrow> (fs', s3, Inr (Undone d)))))"

section \<open>A model of shutil.move\<close>

text \<open>
  The examples below run the methods on this model of \<open>shutil.move\<close>: one device, no
  links, no permissions, and a clock \<open>now\<close> for the times it sets. It follows the library:
  \<^item> a missing source raises;
  \<^item> when \<open>dst\<close> is an existing directory, the source is moved inside it under its own
    base name, unless that name is taken there (\<open>shutil.Error\<close>); moving a directory
    onto itself changes nothing;
  \<^item> otherwise \<open>os.rename\<close> is tried: the directory that is to hold \<open>dst\<close> must exist, a
    regular file at \<open>dst\<close> is replaced by a regular file only, and nothing can be moved
    below itself;
  \<^item> when \<open>os.rename\<close> fails for want of the directory that is to hold \<open>dst\<close> and the
    source is a directory, \<open>copytree\<close> makes the missing directories and copies the
    source, and \<open>rmtree\<close> removes it; a regular file is not moved then.
\<close>

definition os_path_isfile :: "filesystem \<Rightarrow> path \<Rightarrow> bool" where
  "os_path_isfile fs p = (case os_lookup fs p of Some (File c) \<Rightarrow> True | _ \<Rightarrow> False)"

text \<open>A change in a directory, or of a directory, sets its \<open>st_ctime\<close>.\<close>

definition touch :: "int \<Rightarrow> path \<Rightarrow> filesystem \<Rightarrow> filesystem" where
  "touch now p fs =
     map (\<lambda>e. if fst e = p
               then (fst e, (case snd e of File c \<Rightarrow> File c
                                        | Dir st \<Rightarrow> Dir (st\<lparr>st_ctime := now\<rparr>)))
               else e) fs"

definition rebase :: "path \<Rightarrow> path \<Rightarrow> path \<Rightarrow> path" where
  "rebase src dst p = (if prefix src p then dst @ drop (length src) p else p)"

text \<open>
  \<open>os.rename\<close> once it is known to succeed: whatever was at \<open>dst\<close> is replaced, \<open>src\<close>
  with everything below it now lives at \<open>dst\<close>, and the two directories that lost and
  gained an entry, and the entry moved, have a new \<open>st_ctime\<close>.
\<close>

definition os_rename :: "int \<Rightarrow> filesystem \<Rightarrow> path \<Rightarrow> path \<Rightarrow> filesystem" where
  "os_rename now fs src dst =
     touch now dst (touch now (butlast dst) (touch now (butlast src)
       (map (\<lambda>e. (rebase src dst (fst e), snd e)) (filter (\<lambda>e. fst e \<noteq> dst) fs))))"

text \<open>The directories above a path, the nearest to the root first.\<close>

definition ancestors :: "path \<Rightarrow> path list" where
  "ancestors p = map (\<lambda>k. take k p) [1..<length p]"

text \<open>The times of a directory made now, on the platform of \<open>st\<close>.\<close>

definition fresh :: "int \<Rightarrow> stat_result \<Rightarrow> stat_result" where
  "fresh now st = \<lparr>st_birthtime = map_option (\<lambda>t. now) (st_birthtime st), st_ctime = now\<rparr>"

text \<open>
  \<open>copytree(src, dst)\<close> followed by \<open>rmtree(src)\<close>, for a directory \<open>src\<close> with times
  \<open>st\<close>: \<open>os.makedirs\<close> raises when \<open>dst\<close> exists or a regular file is in the way;
  otherwise the directories missing above \<open>dst\<close> are made, and the source with
  everything below it is at \<open>dst\<close>, every directory of it made anew.
\<close>

definition copytree_rmtree ::
  "int \<Rightarrow> filesystem \<Rightarrow> stat_result \<Rightarrow> path \<Rightarrow> path \<Rightarrow> filesystem option" where
  "copytree_rmtree now fs st src dst =
     (if os_path_exists fs dst \<or> list_ex (os_path_isfile fs) (ancestors dst) then None
      else
        (let missing = filter (\<lambda>p. \<not> os_path_exists fs p) (ancestors dst);
             made = map (\<lambda>p. (p, Dir (fresh now st))) missing;
             copied = map (\<lambda>e. if prefix src (fst e)
                                then (rebase src dst (fst e),
                                      (case snd e of File c \<Rightarrow> File c
                                                   | Dir t \<Rightarrow> Dir (fresh now t)))
                                else e) fs
         in Some (touch now (butlast src)
                   (touch now (butlast (hd (missing @ [dst]))) (copied @ made)))))"

definition rename_checked ::
  "int \<Rightarrow> filesystem \<Rightarrow> node \<Rightarrow> path \<Rightarrow> path \<Rightarrow> filesystem option" where
  "rename_checked now fs n src dst =
     (if src = dst then Some fs
      else if dst = [] \<or> prefix src dst then None
      else if os_path_isdir fs (butlast dst) then
        (case os_lookup fs dst of
           None \<Rightarrow> Some (os_rename now fs src dst)
         | Some (File c) \<Rightarrow>
             (case n of File c' \<Rightarrow> Some (os_rename now fs src dst) | Dir st \<Rightarrow> None)
         | Some (Dir st) \<Rightarrow> None)
      else (case n of File c \<Rightarrow> None | Dir st \<Rightarrow> copytree_rmtree now fs st src dst))"

definition moved :: "int \<Rightarrow> filesystem \<Rightarrow> path \<Rightarrow> path \<Rightarrow> filesystem option" where
  "moved now fs src dst =
     (case os_lookup fs src of
        None \<Rightarrow> None
      | Some n \<Rightarrow>
          if os_path_isdir fs dst then
            (if src = dst then Some fs
             else let real_dst = os_path_join dst [os_path_basename src] in
               if os_path_exists fs real_dst then None
               else rename_checked now fs n src real_dst)
          else rename_checked now fs n src dst)"

definition posix_shutil_move :: "int \<Rightarrow> mover" where
  "posix_shutil_move now fs src dst =
     (case moved now fs src dst of
        None \<Rightarrow> (fs, Some OSError)
      | Some fs' \<Rightarrow> (fs', None))"

section \<open>The words of the specification\<close>

text \<open>
  The specification speaks of the extension of a file name, of matching it without
  regard to case, of files, of hidden entries and of a cursor inside the sequence. These
  definitions follow its words and use nothing of the program; the theorems below relate
  them to what the code computes.
\<close>






text \<open>An entry is hidden when its name starts with a dot.\<close>

definition hidden :: "py_str \<Rightarrow> bool" where
  "hidden f = (case f of [] \<Rightarrow> False | c # cs \<Rightarrow> c = 46)"

text \<open>The invariant of the cursor: \<open>0 <= cursor <= length - 1\<close>.\<close>

definition cursor_in_range :: "session \<Rightarrow> bool" where
  "cursor_in_range s =
     (0 \<le> current_index s \<and> current_index s \<le> int (length (image_files s)) - 1)"

section \<open>Examples\<close>

text \<open>
  The directory of the specification's scenario: \<open>a.png\<close>, \<open>b.jpg\<close> and \<open>c.txt\<close> beside
  the folders \<open>cats\<close> and \<open>dogs\<close>, \<open>cats\<close> created first.
\<close>

definition pics :: path where
  "pics = map str [''pics'']"

definition pics_disk :: filesystem where
  "pics_disk =
     [(map str [''pics''], Dir \<lparr>st_birthtime = Some 1, st_ctime = 1\<rparr>),
      (map str [''pics'', ''dogs''], Dir \<lparr>st_birthtime = Some 7, st_ctime = 9\<rparr>),
      (map str [''pics'', ''b.jpg''], File 2),
      (map str [''pics'', ''c.txt''], File 3),
      (map str [''pics'', ''cats''], Dir \<lparr>st_birthtime = Some 5, st_ctime = 9\<rparr>),
      (map str [''pics'', ''a.png''], File 1)]"

definition pics_session :: session where
  "pics_session =
     \<lparr>work_dir = pics, image_files = map str [''a.png'', ''b.jpg''], current_index = 0,
      folders = map str [''cats'', ''dogs''], undo_stack = []\<rparr>"

definition empty_session :: session where
  "empty_session =
     \<lparr>work_dir = pics, image_files = [], current_index = 0,
      folders = map str [''cats'', ''dogs''], undo_stack = []\<rparr>"

text \<open>
  A session whose list and undo stack name \<open>z.png\<close>, a file that is no longer on the
  disk.
\<close>

definition stale_session :: session where
  "stale_session =
     \<lparr>work_dir = pics, image_files = map str [''z.png''], current_index = 0,
      folders = map str [''cats'', ''dogs''],
      undo_stack = [(map str [''pics'', ''cats'', ''z.png''], map str [''pics'', ''z.png''])]\<rparr>"

text \<open>A directory where \<open>cats\<close> already holds a file called \<open>a.png\<close>.\<close>

definition cats_disk :: filesystem where
  "cats_disk =
     [(map str [''pics''], Dir \<lparr>st_birthtime = Some 1, st_ctime = 1\<rparr>),
      (map str [''pics'', ''cats''], Dir \<lparr>st_birthtime = Some 5, st_ctime = 9\<rparr>),
      (map str [''pics'', ''cats'', ''a.png''], File 4),
      (map str [''pics'', ''a.png''], File 1),
      (map str [''pics'', ''b.jpg''], File 2)]"

definition cats_session :: session where
  "cats_session =
     \<lparr>work_dir = pics, image_files = map str [''a.png'', ''b.jpg''], current_index = 0,
      folders = map str [''cats''], undo_stack = []\<rparr>"

text \<open>A directory with one image left.\<close>

definition last_disk :: filesystem where
  "last_disk =
     [(map str [''pics''], Dir \<lparr>st_birthtime = Some 1, st_ctime = 1\<rparr>),
      (map str [''pics'', ''cats''], Dir \<lparr>st_birthtime = Some 5, st_ctime = 9\<rparr>),
      (map str [''pics'', ''a.png''], File 1)]"

definition last_session :: session where
  "last_session =
     \<lparr>work_dir = pics, image_files = map str [''a.png''], current_index = 0,
      folders = map str [''cats''], undo_stack = []\<rparr>"

text \<open>
  A directory where \<open>cats\<close> holds a sub-directory called \<open>a.png\<close>, on a platform
  without creation times; the object after start-up there; what the move of \<open>a.png\<close>
  into \<open>cats\<close> with the answer ``overwrite'' returns at time 20, and what undoing it
  returns at time 21.
\<close>

definition nested_disk :: filesystem where
  "nested_disk =
     [(map str [''pics''], Dir \<lparr>st_birthtime = None, st_ctime = 1\<rparr>),
      (map str [''pics'', ''cats''], Dir \<lparr>st_birthtime = None, st_ctime = 5\<rparr>),
      (map str [''pics'', ''cats'', ''a.png''], Dir \<lparr>st_birthtime = None, st_ctime = 6\<rparr>),
      (map str [''pics'', ''a.png''], File 1)]"

definition nested_session :: session where
  "nested_session =
     \<lparr>work_dir = pics, image_files = map str [''a.png''], current_index = 0,
      folders = map str [''cats''], undo_stack = []\<rparr>"

definition nested_moved :: "filesystem \<times> session \<times> (error + event)" where
  "nested_moved =
     move_image_to_folder (posix_shutil_move 20) nested_disk nested_session 0 (Some True)"

definition nested_undone :: "filesystem \<times> session \<times> (error + event)" where
  "nested_undone =
     undo_move (posix_shutil_move 21) (fst nested_moved) (fst (snd nested_moved))"


section \<open>Turning pages keeps the cursor in range\<close>

text \<open>
  C9. With the cursor inside \<open>[0, length - 1]\<close>, \<open>prev_image\<close> and \<open>next_image\<close> leave it
  there, keep the list and raise nothing: the cursor moves by one, clamped to the range.
  At the first image \<open>prev_image\<close> changes nothing, at the last image \<open>next_image\<close>
  changes nothing, and on an empty list both change nothing, whatever the cursor is.
\<close>

theorem turning_keeps_cursor_in_range:
  "(cursor_in_range s \<longrightarrow>
      cursor_in_range (fst (prev_image s)) \<and> cursor_in_range (fst (next_image s)) \<and>
      fst (prev_image s) = s\<lparr>current_index := max 0 (current_index s - 1)\<rparr> \<and>
      fst (next_image s) =
        s\<lparr>current_index := min (int (length (image_files s)) - 1) (current_index s + 1)\<rparr> \<and>
      (\<exists>ev. snd (prev_image s) = Inr ev) \<and> (\<exists>ev. snd (next_image s) = Inr ev) \<and>
      (current_index s = 0 \<longrightarrow> prev_image s = (s, Inr Stayed)) \<and>
      (current_index s = int (length (image_files s)) - 1 \<longrightarrow> next_image s = (s, Inr Stayed))) \<and>
   (image_files s = [] \<longrightarrow> prev_image s = (s, Inr Stayed) \<and> next_image s = (s, Inr Stayed))"
  by (auto simp: cursor_in_range_def prev_image_def next_image_def show_current_image_def
        py_getitem_def py_position_def Let_def max_def min_def
        split: sum.splits option.splits if_splits)

theorem turning_keeps_cursor_in_range_witness:
  "cursor_in_range pics_session \<and>
   prev_image pics_session = (pics_session, Inr Stayed) \<and>
   fst (next_image pics_session) = pics_session\<lparr>current_index := 1\<rparr> \<and>
   image_files empty_session = [] \<and>
   next_image empty_session = (empty_session, Inr Stayed)"
  using turning_keeps_cursor_in_range [of pics_session]
    turning_keeps_cursor_in_range [of empty_session]
  by (simp add: cursor_in_range_def pics_session_def empty_session_def)

section \<open>Listing the images\<close>














section \<open>Listing the folders\<close>

lemma startswith_dot: "startswith f (str ''.'') \<longleftrightarrow> hidden f"
  by (cases f) (auto simp: startswith_def hidden_def str_def)

text \<open>
  C8. \<open>load_folders\<close> replaces the folder list by the entries of the working directory
  that are directories and not hidden, each as often as \<open>os.listdir\<close> returns it, in
  ascending order of \<open>create_time\<close>, which is \<open>st_birthtime\<close> where the platform has it
  and \<open>st_ctime\<close> where it has not; nothing else of the object changes.
\<close>

theorem load_folders_lists_the_folders:
  "sorted (map (\<lambda>f. create_time fs (os_path_join (work_dir s) [f]))
     (folders (load_folders fs s))) \<and>
   mset (folders (load_folders fs s)) =
     filter_mset (\<lambda>f. os_path_isdir fs (os_path_join (work_dir s) [f]) \<and> \<not> hidden f)
       (mset (os_listdir fs (work_dir s))) \<and>
   (\<forall>p. create_time fs p =
      (case st_birthtime (os_stat fs p) of Some t \<Rightarrow> t | None \<Rightarrow> st_ctime (os_stat fs p))) \<and>
   load_folders fs s = s\<lparr>folders := folders (load_folders fs s)\<rparr>"
proof -
  let ?es = "folder_with_time fs (work_dir s)"
  let ?t = "\<lambda>f. create_time fs (os_path_join (work_dir s) [f])"
  have f: "folders (load_folders fs s) = map fst (sort_key snd ?es)"
    by (simp add: load_folders_def)
  have "\<forall>e \<in> set (sort_key snd ?es). ?t (fst e) = snd e"
    by (auto simp: folder_with_time_def)
  then have eq: "map ?t (map fst (sort_key snd ?es)) = map snd (sort_key snd ?es)"
    unfolding map_map by (subst map_eq_conv) simp
  have 1: "sorted (map ?t (folders (load_folders fs s)))"
    unfolding f eq by (rule sorted_sort_key)
  have "mset (map fst (sort_key snd ?es)) = mset (map fst ?es)"
    by (metis mset_map mset_sort)
  then have 2: "mset (folders (load_folders fs s)) =
     filter_mset (\<lambda>f. os_path_isdir fs (os_path_join (work_dir s) [f]) \<and> \<not> hidden f)
       (mset (os_listdir fs (work_dir s)))"
    by (simp add: load_folders_def folder_with_time_def comp_def startswith_dot)
  show ?thesis using 1 2 by (simp add: create_time_def load_folders_def)
qed

theorem load_folders_lists_the_folders_witness:
  "folders (load_folders pics_disk empty_session) = map str [''cats'', ''dogs''] \<and>
   map (\<lambda>f. create_time pics_disk (os_path_join (work_dir empty_session) [f]))
     (folders (load_folders pics_disk empty_session)) = [5, 7] \<and>
   create_time nested_disk (map str [''pics'', ''cats'']) = 5"
proof -
  have "folders (load_folders pics_disk empty_session) = map str [''cats'', ''dogs'']"
    by code_simp
  moreover have "create_time pics_disk (map str [''pics'', ''cats'']) = 5"
    and "create_time pics_disk (map str [''pics'', ''dogs'']) = 7"
    and "create_time nested_disk (map str [''pics'', ''cats'']) = 5"
    by code_simp+
  ultimately show ?thesis
    using load_folders_lists_the_folders [of pics_disk empty_session]
    by (simp add: empty_session_def pics_def os_path_join_def)
qed

section \<open>The guards and failures of moving and undoing\<close>

lemma getitem_in_range:
  assumes "0 \<le> i" "i < int (length xs)"
  shows "py_getitem xs i = Inr (xs ! nat i)"
  using assms by (simp add: py_getitem_def py_position_def)

text \<open>The model of \<open>shutil.move\<close> leaves the disk as it was when it raises.\<close>

lemma posix_failure_leaves_disk:
  "posix_shutil_move now fs src dst = (fs', Some e) \<Longrightarrow> fs' = fs \<and> e = OSError"
  by (auto simp: posix_shutil_move_def split: option.splits)

text \<open>What a move that ended well has done, read off the code.\<close>

lemma moved_unfold:
  assumes "move_image_to_folder shutil_move fs s folder_index askyesnocancel =
             (fs', s', Inr (Moved d))"
  shows "\<exists>src_file target_folder rest.
           py_getitem (image_files s) (current_index s) = Inr src_file \<and>
           py_getitem (folders s) folder_index = Inr target_folder \<and>
           py_delitem (image_files s) (current_index s) = Inr rest \<and>
           shutil_move fs (os_path_join (work_dir s) [src_file])
             (os_path_join (work_dir s) [target_folder, src_file]) = (fs', None) \<and>
           s' = s\<lparr>undo_stack := undo_stack s @
                     [(os_path_join (work_dir s) [target_folder, src_file],
                       os_path_join (work_dir s) [src_file])],
                  image_files := rest,
                  current_index := (if current_index s \<ge> int (length rest)
                                    then int (length rest) - 1 else current_index s)\<rparr>"
  using assms
  by (auto simp: move_image_to_folder_def Let_def
      split: if_splits sum.splits option.splits prod.splits)

text \<open>
  C6. On an empty undo stack \<open>undo_move\<close> ends with \<open>NothingToUndoError\<close> and changes
  nothing. On a non-empty stack whose last record cannot be moved back, because
  \<open>shutil.move\<close> raises, it ends with \<open>FileSystemError\<close>; the record stays popped, and
  the image list, the cursor and the folder list are as before. The disk is as
  \<open>shutil.move\<close> left it.
\<close>

theorem undo_failures:
  "(undo_stack s = [] \<longrightarrow> undo_move shutil_move fs s = (fs, s, Inl NothingToUndoError)) \<and>
   (undo_stack s \<noteq> [] \<and>
    shutil_move fs (fst (last (undo_stack s))) (snd (last (undo_stack s))) = (fs', Some e) \<longrightarrow>
      undo_move shutil_move fs s =
        (fs', s\<lparr>undo_stack := butlast (undo_stack s)\<rparr>, Inl (FileSystemError e)))"
  by (simp add: undo_move_def Let_def)

theorem undo_failures_witness:
  "undo_stack pics_session = [] \<and>
   undo_move (posix_shutil_move 20) pics_disk pics_session =
     (pics_disk, pics_session, Inl NothingToUndoError) \<and>
   undo_stack stale_session \<noteq> [] \<and>
   posix_shutil_move 20 pics_disk (fst (last (undo_stack stale_session)))
     (snd (last (undo_stack stale_session))) = (pics_disk, Some OSError) \<and>
   undo_move (posix_shutil_move 20) pics_disk stale_session =
     (pics_disk, stale_session\<lparr>undo_stack := []\<rparr>, Inl (FileSystemError OSError))"
proof -
  have 1: "undo_stack pics_session = []" and 2: "undo_stack stale_session \<noteq> []"
    and 3: "butlast (undo_stack stale_session) = []"
    by (simp_all add: pics_session_def stale_session_def)
  have 4: "posix_shutil_move 20 pics_disk (fst (last (undo_stack stale_session)))
     (snd (last (undo_stack stale_session))) = (pics_disk, Some OSError)"
    by code_simp
  show ?thesis
    using 1 2 4
      undo_failures [where s = pics_session and fs = pics_disk
        and shutil_move = "posix_shutil_move 20"]
      undo_failures [where s = stale_session and fs = pics_disk and fs' = pics_disk
        and e = OSError and shutil_move = "posix_shutil_move 20"]
    by (simp add: 3)
qed

text \<open>
  C3. When \<open>move_image_to_folder\<close> reaches \<open>shutil.move\<close> (there is an image under the
  cursor, the folder index selects a folder, and the destination is free or the user
  chose to overwrite) and \<open>shutil.move\<close> raises, the method ends with \<open>FileSystemError\<close>
  and the image list, the cursor, the folder list and the undo stack are unchanged. The
  disk is as \<open>shutil.move\<close> left it.
\<close>

theorem failed_move_changes_nothing:
  assumes "image_files s \<noteq> []"
    and "folder_index < int (length (folders s))"
    and "py_getitem (image_files s) (current_index s) = Inr src_file"
    and "py_getitem (folders s) folder_index = Inr target_folder"
    and "os_path_exists fs (os_path_join (work_dir s) [target_folder, src_file]) \<longrightarrow>
           askyesnocancel = Some True"
    and "shutil_move fs (os_path_join (work_dir s) [src_file])
           (os_path_join (work_dir s) [target_folder, src_file]) = (fs', Some e)"
  shows "move_image_to_folder shutil_move fs s folder_index askyesnocancel =
           (fs', s, Inl (FileSystemError e))"
  using assms by (auto simp: move_image_to_folder_def Let_def)

theorem failed_move_changes_nothing_witness:
  "image_files stale_session \<noteq> [] \<and>
   0 < int (length (folders stale_session)) \<and>
   py_getitem (image_files stale_session) (current_index stale_session) = Inr (str ''z.png'') \<and>
   py_getitem (folders stale_session) 0 = Inr (str ''cats'') \<and>
   \<not> os_path_exists pics_disk
       (os_path_join (work_dir stale_session) [str ''cats'', str ''z.png'']) \<and>
   posix_shutil_move 20 pics_disk (os_path_join (work_dir stale_session) [str ''z.png''])
     (os_path_join (work_dir stale_session) [str ''cats'', str ''z.png'']) =
     (pics_disk, Some OSError) \<and>
   move_image_to_folder (posix_shutil_move 20) pics_disk stale_session 0 None =
     (pics_disk, stale_session, Inl (FileSystemError OSError))"
proof -
  have 1: "image_files stale_session \<noteq> []"
    and 2: "0 < int (length (folders stale_session))"
    and 3: "py_getitem (image_files stale_session) (current_index stale_session) =
              Inr (str ''z.png'')"
    and 4: "py_getitem (folders stale_session) 0 = Inr (str ''cats'')"
    by (simp_all add: stale_session_def py_getitem_def py_position_def)
  have 5: "\<not> os_path_exists pics_disk
      (os_path_join (work_dir stale_session) [str ''cats'', str ''z.png''])"
    by code_simp
  have 6: "posix_shutil_move 20 pics_disk (os_path_join (work_dir stale_session) [str ''z.png''])
     (os_path_join (work_dir stale_session) [str ''cats'', str ''z.png'']) =
     (pics_disk, Some OSError)"
    by code_simp
  from 5 have 7: "os_path_exists pics_disk
      (os_path_join (work_dir stale_session) [str ''cats'', str ''z.png''])
     \<longrightarrow> None = Some True"
    by simp
  show ?thesis
    using 1 2 3 4 5 6
      failed_move_changes_nothing [where shutil_move = "posix_shutil_move 20", OF 1 2 3 4 7 6]
    by simp
qed

text \<open>
  C4, as the code has it. \<open>move_image_to_folder\<close> ends with \<open>NoImagesError\<close> when the
  image list is empty, and with \<open>InvalidFolderError\<close> when the list is not empty and
  \<open>folder_index >= len(self.folders)\<close>; in both cases the disk and the object are
  unchanged. The guard has no lower bound.
\<close>

theorem guards_of_move:
  "(image_files s = [] \<longrightarrow>
      move_image_to_folder shutil_move fs s folder_index askyesnocancel =
        (fs, s, Inl NoImagesError)) \<and>
   (image_files s \<noteq> [] \<and> folder_index \<ge> int (length (folders s)) \<longrightarrow>
      move_image_to_folder shutil_move fs s folder_index askyesnocancel =
        (fs, s, Inl InvalidFolderError))"
  by (simp add: move_image_to_folder_def)

theorem guards_of_move_witness:
  "image_files empty_session = [] \<and>
   move_image_to_folder (posix_shutil_move 20) pics_disk empty_session 0 None =
     (pics_disk, empty_session, Inl NoImagesError) \<and>
   image_files pics_session \<noteq> [] \<and> 2 \<ge> int (length (folders pics_session)) \<and>
   move_image_to_folder (posix_shutil_move 20) pics_disk pics_session 2 None =
     (pics_disk, pics_session, Inl InvalidFolderError)"
  using guards_of_move [where s = empty_session and fs = pics_disk and folder_index = 0
      and askyesnocancel = None and shutil_move = "posix_shutil_move 20"]
    guards_of_move [where s = pics_session and fs = pics_disk and folder_index = 2
      and askyesnocancel = None and shutil_move = "posix_shutil_move 20"]
  by (simp add: empty_session_def pics_session_def)

text \<open>
  C4 as stated fails: \<open>-1\<close> is outside the bounds \<open>0 \<dots> 0\<close> of a folder list with one
  folder, yet the call moves \<open>a.png\<close> into that folder and changes the disk, the image
  list, the cursor and the undo stack.
\<close>

theorem negative_index_moves:
  "\<not> (0 \<le> (- 1 :: int) \<and> (- 1 :: int) < int (length (folders last_session))) \<and>
   move_image_to_folder (posix_shutil_move 20) last_disk last_session (- 1) None =
     ([(map str [''pics''], Dir \<lparr>st_birthtime = Some 1, st_ctime = 20\<rparr>),
       (map str [''pics'', ''cats''], Dir \<lparr>st_birthtime = Some 5, st_ctime = 20\<rparr>),
       (map str [''pics'', ''cats'', ''a.png''], File 1)],
      \<lparr>work_dir = pics, image_files = [], current_index = - 1, folders = map str [''cats''],
         undo_stack = [(map str [''pics'', ''cats'', ''a.png''], map str [''pics'', ''a.png''])]\<rparr>,
      Inr (Moved AllClassified)) \<and>
   fst (move_image_to_folder (posix_shutil_move 20) last_disk last_session (- 1) None) \<noteq>
     last_disk \<and>
   fst (snd (move_image_to_folder (posix_shutil_move 20) last_disk last_session (- 1) None)) \<noteq>
     last_session"
  by code_simp

text \<open>
  C5, as the code has it. After a move that ended well, the pair of destination path and
  source path is the new last record of the undo stack, the entry under the cursor is
  gone from the image list, and a cursor that is now at or beyond the length of the list
  is set to the length minus one. When the list has become empty that is \<open>-1\<close>: the
  cursor is not clamped to a non-negative value. For a cursor that was in range, the
  entry removed is the one at the cursor, and the cursor is decremented exactly when it
  equals the new length.
\<close>

theorem successful_move:
  assumes "move_image_to_folder shutil_move fs s folder_index askyesnocancel =
             (fs', s', Inr (Moved d))"
  shows "\<exists>src_file target_folder rest.
           py_getitem (image_files s) (current_index s) = Inr src_file \<and>
           py_getitem (folders s) folder_index = Inr target_folder \<and>
           py_delitem (image_files s) (current_index s) = Inr rest \<and>
           s' = s\<lparr>undo_stack := undo_stack s @
                     [(os_path_join (work_dir s) [target_folder, src_file],
                       os_path_join (work_dir s) [src_file])],
                  image_files := rest,
                  current_index := (if current_index s \<ge> int (length rest)
                                    then int (length rest) - 1 else current_index s)\<rparr> \<and>
           (rest = [] \<longrightarrow> current_index s' = - 1) \<and>
           (cursor_in_range s \<longrightarrow>
              rest = take (nat (current_index s)) (image_files s) @
                     drop (Suc (nat (current_index s))) (image_files s) \<and>
              current_index s' = (if current_index s = int (length rest)
                                  then current_index s - 1 else current_index s))"
proof -
  from moved_unfold [OF assms] obtain src_file target_folder rest where
    a: "py_getitem (image_files s) (current_index s) = Inr src_file"
    and b: "py_getitem (folders s) folder_index = Inr target_folder"
    and c: "py_delitem (image_files s) (current_index s) = Inr rest"
    and e: "s' = s\<lparr>undo_stack := undo_stack s @
                     [(os_path_join (work_dir s) [target_folder, src_file],
                       os_path_join (work_dir s) [src_file])],
                  image_files := rest,
                  current_index := (if current_index s \<ge> int (length rest)
                                    then int (length rest) - 1 else current_index s)\<rparr>"
    by blast
  from c have f: "rest = [] \<longrightarrow> current_index s' = - 1"
    by (auto simp: e py_delitem_def py_position_def split: if_splits)
  from c have g: "cursor_in_range s \<longrightarrow>
              rest = take (nat (current_index s)) (image_files s) @
                     drop (Suc (nat (current_index s))) (image_files s) \<and>
              current_index s' = (if current_index s = int (length rest)
                                  then current_index s - 1 else current_index s)"
    by (auto simp: e cursor_in_range_def py_delitem_def py_position_def split: if_splits)
  from a b c e f g show ?thesis by blast
qed

theorem successful_move_witness:
  "move_image_to_folder (posix_shutil_move 20) pics_disk (pics_session\<lparr>current_index := 1\<rparr>)
     1 None =
     ([(map str [''pics''], Dir \<lparr>st_birthtime = Some 1, st_ctime = 20\<rparr>),
       (map str [''pics'', ''dogs''], Dir \<lparr>st_birthtime = Some 7, st_ctime = 20\<rparr>),
       (map str [''pics'', ''dogs'', ''b.jpg''], File 2),
       (map str [''pics'', ''c.txt''], File 3),
       (map str [''pics'', ''cats''], Dir \<lparr>st_birthtime = Some 5, st_ctime = 9\<rparr>),
       (map str [''pics'', ''a.png''], File 1)],
      \<lparr>work_dir = pics, image_files = map str [''a.png''], current_index = 0,
         folders = map str [''cats'', ''dogs''],
         undo_stack = [(map str [''pics'', ''dogs'', ''b.jpg''], map str [''pics'', ''b.jpg''])]\<rparr>,
      Inr (Moved (Showing (str ''a.png'')))) \<and>
   cursor_in_range (pics_session\<lparr>current_index := 1\<rparr>) \<and>
   py_delitem (image_files (pics_session\<lparr>current_index := 1\<rparr>)) 1 = Inr (map str [''a.png''])"
proof -
  have m: "move_image_to_folder (posix_shutil_move 20) pics_disk
     (pics_session\<lparr>current_index := 1\<rparr>) 1 None =
     ([(map str [''pics''], Dir \<lparr>st_birthtime = Some 1, st_ctime = 20\<rparr>),
       (map str [''pics'', ''dogs''], Dir \<lparr>st_birthtime = Some 7, st_ctime = 20\<rparr>),
       (map str [''pics'', ''dogs'', ''b.jpg''], File 2),
       (map str [''pics'', ''c.txt''], File 3),
       (map str [''pics'', ''cats''], Dir \<lparr>st_birthtime = Some 5, st_ctime = 9\<rparr>),
       (map str [''pics'', ''a.png''], File 1)],
      \<lparr>work_dir = pics, image_files = map str [''a.png''], current_index = 0,
         folders = map str [''cats'', ''dogs''],
         undo_stack = [(map str [''pics'', ''dogs'', ''b.jpg''], map str [''pics'', ''b.jpg''])]\<rparr>,
      Inr (Moved (Showing (str ''a.png''))))"
    by code_simp
  have r: "cursor_in_range (pics_session\<lparr>current_index := 1\<rparr>)"
    by (simp add: cursor_in_range_def pics_session_def)
  show ?thesis
    using m r successful_move [where shutil_move = "posix_shutil_move 20", OF m]
    by (auto simp: pics_session_def)
qed

text \<open>
  C5 as stated fails: moving the only image leaves the cursor at \<open>-1\<close>, which is
  negative.
\<close>

theorem cursor_not_clamped:
  "snd (snd (move_image_to_folder (posix_shutil_move 20) last_disk last_session 0 None)) =
     Inr (Moved AllClassified) \<and>
   image_files (fst (snd (move_image_to_folder (posix_shutil_move 20) last_disk last_session
     0 None))) = [] \<and>
   current_index (fst (snd (move_image_to_folder (posix_shutil_move 20) last_disk last_session
     0 None))) = - 1 \<and>
   \<not> 0 \<le> current_index (fst (snd (move_image_to_folder (posix_shutil_move 20) last_disk
     last_session 0 None)))"
  by code_simp

text \<open>
  C10, as the code has it. With a non-empty image list and a folder list of length \<open>L\<close>,
  a folder index from \<open>-L\<close> to \<open>-1\<close> is not stopped by the guard
  \<open>folder_index >= len(self.folders)\<close>: the call does exactly what it does for the index
  \<open>L + folder_index\<close>, and the folder it selects is the one at that position. The image
  is moved there when the rest of the method lets it: with the cursor in range, the
  destination free or overwriting chosen, and \<open>shutil.move\<close> into that folder
  succeeding, the image is moved and the move is recorded.
\<close>

theorem negative_folder_index:
  assumes "image_files s \<noteq> []"
    and "- int (length (folders s)) \<le> folder_index" and "folder_index < 0"
  shows "move_image_to_folder shutil_move fs s folder_index askyesnocancel =
           move_image_to_folder shutil_move fs s (int (length (folders s)) + folder_index)
             askyesnocancel \<and>
         py_getitem (folders s) folder_index =
           Inr (folders s ! nat (int (length (folders s)) + folder_index)) \<and>
         snd (snd (move_image_to_folder shutil_move fs s folder_index askyesnocancel)) \<noteq>
           Inl InvalidFolderError \<and>
         (cursor_in_range s \<and>
          (os_path_exists fs (os_path_join (work_dir s)
              [folders s ! nat (int (length (folders s)) + folder_index),
               image_files s ! nat (current_index s)]) \<longrightarrow> askyesnocancel = Some True) \<and>
          shutil_move fs (os_path_join (work_dir s) [image_files s ! nat (current_index s)])
            (os_path_join (work_dir s)
              [folders s ! nat (int (length (folders s)) + folder_index),
               image_files s ! nat (current_index s)]) = (fs', None) \<longrightarrow>
          (\<exists>s' d. move_image_to_folder shutil_move fs s folder_index askyesnocancel =
                    (fs', s', Inr (Moved d)) \<and>
             last (undo_stack s') =
               (os_path_join (work_dir s)
                  [folders s ! nat (int (length (folders s)) + folder_index),
                   image_files s ! nat (current_index s)],
                os_path_join (work_dir s) [image_files s ! nat (current_index s)])))"
proof -
  have gf: "py_getitem (folders s) folder_index =
           Inr (folders s ! nat (int (length (folders s)) + folder_index))"
    using assms by (simp add: py_getitem_def py_position_def)
  have gf': "py_getitem (folders s) (int (length (folders s)) + folder_index) =
           Inr (folders s ! nat (int (length (folders s)) + folder_index))"
    using assms by (simp add: py_getitem_def py_position_def)
  have 1: "move_image_to_folder shutil_move fs s folder_index askyesnocancel =
           move_image_to_folder shutil_move fs s (int (length (folders s)) + folder_index)
             askyesnocancel"
    using assms gf gf'
    by (cases "py_getitem (image_files s) (current_index s)")
      (simp_all add: move_image_to_folder_def Let_def)
  have 3: "snd (snd (move_image_to_folder shutil_move fs s folder_index askyesnocancel)) \<noteq>
           Inl InvalidFolderError"
    using assms gf
    by (auto simp: move_image_to_folder_def Let_def
        split: sum.splits option.splits prod.splits)
  have 4: "\<exists>s' d. move_image_to_folder shutil_move fs s folder_index askyesnocancel =
                    (fs', s', Inr (Moved d)) \<and>
             last (undo_stack s') =
               (os_path_join (work_dir s)
                  [folders s ! nat (int (length (folders s)) + folder_index),
                   image_files s ! nat (current_index s)],
                os_path_join (work_dir s) [image_files s ! nat (current_index s)])"
    if r: "cursor_in_range s"
      and a: "os_path_exists fs (os_path_join (work_dir s)
              [folders s ! nat (int (length (folders s)) + folder_index),
               image_files s ! nat (current_index s)]) \<longrightarrow> askyesnocancel = Some True"
      and m: "shutil_move fs (os_path_join (work_dir s) [image_files s ! nat (current_index s)])
            (os_path_join (work_dir s)
              [folders s ! nat (int (length (folders s)) + folder_index),
               image_files s ! nat (current_index s)]) = (fs', None)"
  proof -
    from r have c: "0 \<le> current_index s" "current_index s < int (length (image_files s))"
      by (simp_all add: cursor_in_range_def)
    then have gi: "py_getitem (image_files s) (current_index s) =
        Inr (image_files s ! nat (current_index s))"
      by (rule getitem_in_range)
    from c have di: "py_delitem (image_files s) (current_index s) =
        Inr (take (nat (current_index s)) (image_files s) @
             drop (Suc (nat (current_index s))) (image_files s))"
      by (simp add: py_delitem_def py_position_def)
    show ?thesis
      using assms gf gi di a m c
      by (auto simp: move_image_to_folder_def Let_def go_to_next_or_finish_def
          show_current_image_def py_getitem_def py_position_def
          split: sum.splits option.splits)
  qed
  from gf 1 3 4 show ?thesis by blast
qed

theorem negative_folder_index_witness:
  "image_files pics_session \<noteq> [] \<and>
   - int (length (folders pics_session)) \<le> - 1 \<and> (- 1 :: int) < 0 \<and>
   cursor_in_range pics_session \<and>
   py_getitem (folders pics_session) (- 1) = Inr (str ''dogs'') \<and>
   move_image_to_folder (posix_shutil_move 20) pics_disk pics_session (- 1) None =
     move_image_to_folder (posix_shutil_move 20) pics_disk pics_session 1 None \<and>
   move_image_to_folder (posix_shutil_move 20) pics_disk pics_session (- 1) None =
     ([(map str [''pics''], Dir \<lparr>st_birthtime = Some 1, st_ctime = 20\<rparr>),
       (map str [''pics'', ''dogs''], Dir \<lparr>st_birthtime = Some 7, st_ctime = 20\<rparr>),
       (map str [''pics'', ''b.jpg''], File 2),
       (map str [''pics'', ''c.txt''], File 3),
       (map str [''pics'', ''cats''], Dir \<lparr>st_birthtime = Some 5, st_ctime = 9\<rparr>),
       (map str [''pics'', ''dogs'', ''a.png''], File 1)],
      \<lparr>work_dir = pics, image_files = map str [''b.jpg''], current_index = 0,
         folders = map str [''cats'', ''dogs''],
         undo_stack = [(map str [''pics'', ''dogs'', ''a.png''], map str [''pics'', ''a.png''])]\<rparr>,
      Inr (Moved (Showing (str ''b.jpg''))))"
proof -
  have 1: "image_files pics_session \<noteq> []"
    and 2: "- int (length (folders pics_session)) \<le> - 1"
    and 3: "(- 1 :: int) < 0"
    and 4: "cursor_in_range pics_session"
    by (simp_all add: pics_session_def cursor_in_range_def)
  have 5: "move_image_to_folder (posix_shutil_move 20) pics_disk pics_session (- 1) None =
     ([(map str [''pics''], Dir \<lparr>st_birthtime = Some 1, st_ctime = 20\<rparr>),
       (map str [''pics'', ''dogs''], Dir \<lparr>st_birthtime = Some 7, st_ctime = 20\<rparr>),
       (map str [''pics'', ''b.jpg''], File 2),
       (map str [''pics'', ''c.txt''], File 3),
       (map str [''pics'', ''cats''], Dir \<lparr>st_birthtime = Some 5, st_ctime = 9\<rparr>),
       (map str [''pics'', ''dogs'', ''a.png''], File 1)],
      \<lparr>work_dir = pics, image_files = map str [''b.jpg''], current_index = 0,
         folders = map str [''cats'', ''dogs''],
         undo_stack = [(map str [''pics'', ''dogs'', ''a.png''], map str [''pics'', ''a.png''])]\<rparr>,
      Inr (Moved (Showing (str ''b.jpg''))))"
    by code_simp
  have 6: "py_getitem (folders pics_session) (- 1) = Inr (str ''dogs'')"
    using negative_folder_index [where shutil_move = "posix_shutil_move 20", OF 1 2 3]
    by (simp add: pics_session_def)
  have 7: "move_image_to_folder (posix_shutil_move 20) pics_disk pics_session (- 1) None =
     move_image_to_folder (posix_shutil_move 20) pics_disk pics_session 1 None"
    using negative_folder_index [where shutil_move = "posix_shutil_move 20" and fs = pics_disk
        and askyesnocancel = None, OF 1 2 3]
    by (simp add: pics_session_def)
  from 1 2 3 4 5 6 7 show ?thesis by blast
qed

text \<open>
  C10 as stated fails: a negative index in range does not always move the image. With
  \<open>cats/a.png\<close> on the disk and the dialog cancelled, index \<open>-1\<close> passes the guard and
  selects \<open>cats\<close>, and the method returns without moving anything.
\<close>

theorem negative_index_cancelled:
  "image_files cats_session \<noteq> [] \<and>
   - int (length (folders cats_session)) \<le> - 1 \<and> (- 1 :: int) < 0 \<and>
   move_image_to_folder (posix_shutil_move 20) cats_disk cats_session (- 1) None =
     (cats_disk, cats_session, Inr Cancelled)"
  by code_simp

section \<open>Skipping on a collision\<close>

text \<open>
  What the code does when the destination exists and the user answers ``skip'': it
  refreshes the display through \<open>go_to_next_or_finish\<close> and returns. The image list, the
  cursor, the undo stack and the disk are as before, and the image shown is still the
  one that was to be skipped.
\<close>

lemma skip_changes_nothing:
  assumes "image_files s \<noteq> []"
    and "folder_index < int (length (folders s))"
    and "py_getitem (image_files s) (current_index s) = Inr src_file"
    and "py_getitem (folders s) folder_index = Inr target_folder"
    and "os_path_exists fs (os_path_join (work_dir s) [target_folder, src_file])"
  shows "move_image_to_folder shutil_move fs s folder_index (Some False) =
           (fs, s, Inr (Skipped (Showing src_file)))"
  using assms
  by (simp add: move_image_to_folder_def Let_def go_to_next_or_finish_def
      show_current_image_def)

text \<open>
  C2. The claim says that skipping removes the entry under the cursor from the image
  list. The code does not: with \<open>a.png\<close> and \<open>b.jpg\<close> listed, the cursor on \<open>a.png\<close> and
  \<open>cats/a.png\<close> on the disk, answering ``skip'' leaves both images listed and \<open>a.png\<close>
  shown. No undo record is made and the disk is untouched, as the claim says.
\<close>

theorem skip_keeps_the_image:
  "move_image_to_folder (posix_shutil_move 20) cats_disk cats_session 0 (Some False) =
     (cats_disk, cats_session, Inr (Skipped (Showing (str ''a.png'')))) \<and>
   image_files cats_session = map str [''a.png'', ''b.jpg''] \<and>
   current_index cats_session = 0 \<and>
   os_path_exists cats_disk (map str [''pics'', ''cats'', ''a.png''])"
  by code_simp

section \<open>Moving an image and taking the move back\<close>

text \<open>
  C1. The claim says that undoing a move right after it puts the moved file back at
  its source path. The code does not when the destination is an existing directory:
  \<open>move_image_to_folder\<close> records \<open>dst_path\<close> on the undo stack, but \<open>shutil.move\<close> has
  put the file inside that directory, at \<open>dst_path/a.png\<close>. Here \<open>cats/a.png\<close> is a
  directory, \<open>a.png\<close> is a regular file listed with the cursor on it, and the user
  answers ``overwrite''. The move ends well with the file at \<open>cats/a.png/a.png\<close>.
  \<open>undo_move\<close> then moves the directory \<open>cats/a.png\<close> to the source path and ends well:
  the object is as before the move and \<open>a.png\<close> is listed and shown again, but at the
  source path there is now a directory, and the image file is one level below it.
\<close>

theorem undo_brings_back_a_directory:
  "os_lookup nested_disk (map str [''pics'', ''a.png'']) = Some (File 1) \<and>
   os_path_isdir nested_disk (map str [''pics'', ''cats'', ''a.png'']) \<and>
   image_files nested_session = image_files (load_images nested_disk nested_session) \<and>
   folders nested_session = folders (load_folders nested_disk nested_session) \<and>
   cursor_in_range nested_session \<and>
   snd nested_moved =
     (\<lparr>work_dir = pics, image_files = [], current_index = - 1, folders = map str [''cats''],
        undo_stack = [(map str [''pics'', ''cats'', ''a.png''], map str [''pics'', ''a.png''])]\<rparr>,
      Inr (Moved AllClassified)) \<and>
   os_lookup (fst nested_moved) (map str [''pics'', ''cats'', ''a.png'', ''a.png'']) =
     Some (File 1) \<and>
   os_path_isdir (fst nested_moved) (map str [''pics'', ''cats'', ''a.png'']) \<and>
   snd nested_undone = (nested_session, Inr (Undone (Showing (str ''a.png'')))) \<and>
   os_path_isdir (fst nested_undone) (map str [''pics'', ''a.png'']) \<and>
   \<not> os_path_isfile (fst nested_undone) (map str [''pics'', ''a.png'']) \<and>
   os_lookup (fst nested_undone) (map str [''pics'', ''a.png'', ''a.png'']) = Some (File 1) \<and>
   os_lookup (fst nested_undone) (map str [''pics'', ''a.png'']) \<noteq>
     os_lookup nested_disk (map str [''pics'', ''a.png''])"
  by code_simp

end
